theory Spec2Isabelle
  imports Complex_Main
begin

section \<open>Tensors and errors\<close>

text \<open>
  A rank-4 tensor (batch, channel, height, width) is its four extents together with
  its entries, read by index. Entries are real numbers; an entry outside the extents
  carries no meaning and no statement below reads one.
\<close>

record tensor =
  tn :: nat
  tc :: nat
  th :: nat
  tw :: nat
  el :: "nat \<Rightarrow> nat \<Rightarrow> nat \<Rightarrow> nat \<Rightarrow> real"

text \<open>The exceptions a forward pass or a construction can raise.\<close>

datatype error =
    ChannelMismatch
  | KernelTooLarge
  | OutputTooSmall
  | ShapeMismatch
  | IndexError
  | AttributeError
  | TypeError
  | LoadError

definition bindE :: "error + 'a \<Rightarrow> ('a \<Rightarrow> error + 'b) \<Rightarrow> error + 'b" where
  "bindE m f = (case m of Inl e \<Rightarrow> Inl e | Inr x \<Rightarrow> f x)"

definition has_shape :: "tensor \<Rightarrow> nat \<Rightarrow> nat \<Rightarrow> nat \<Rightarrow> nat \<Rightarrow> bool" where
  "has_shape t n c h w = (tn t = n \<and> tc t = c \<and> th t = h \<and> tw t = w)"

definition all_zero :: "tensor \<Rightarrow> bool" where
  "all_zero t = (\<forall>b<tn t. \<forall>c<tc t. \<forall>y<th t. \<forall>x<tw t. el t b c y x = 0)"

section \<open>Library layers\<close>

text \<open>
  The values a library block (convolution + batch normalisation + ReLU, or a whole
  GoogLeNet inception block) computes depend on randomly initialised parameters; they
  are an arbitrary function of the block's input.
\<close>

type_synonym vals = "tensor \<Rightarrow> nat \<Rightarrow> nat \<Rightarrow> nat \<Rightarrow> nat \<Rightarrow> real"

text \<open>Output extent of a convolution: \<open>floor((h + 2p - k) / s) + 1\<close>.\<close>

definition conv_out :: "nat \<Rightarrow> nat \<Rightarrow> nat \<Rightarrow> nat \<Rightarrow> nat" where
  "conv_out h k s p = (h + 2 * p - k) div s + 1"

text \<open>
  Output extent of a pooling window, with the rule of ceil mode that the last window
  starts inside the input or its left padding. The division rounds towards minus
  infinity, over the integers.
\<close>

definition pool_out :: "nat \<Rightarrow> nat \<Rightarrow> nat \<Rightarrow> nat \<Rightarrow> bool \<Rightarrow> int" where
  "pool_out h k s p ceil_mode =
     (let o1 = (int h + 2 * int p - int k + (if ceil_mode then int s - 1 else 0)) div int s + 1
      in if ceil_mode \<and> (o1 - 1) * int s \<ge> int h + int p then o1 - 1 else o1)"

definition BasicConv2d ::
  "vals \<Rightarrow> nat \<Rightarrow> nat \<Rightarrow> nat \<Rightarrow> nat \<Rightarrow> nat \<Rightarrow> tensor \<Rightarrow> error + tensor" where
  "BasicConv2d f in_channels out_channels kernel_size stride padding x =
     (if tc x \<noteq> in_channels then Inl ChannelMismatch
      else if th x + 2 * padding < kernel_size \<or> tw x + 2 * padding < kernel_size
        then Inl KernelTooLarge
      else Inr \<lparr>tn = tn x, tc = out_channels,
                th = conv_out (th x) kernel_size stride padding,
                tw = conv_out (tw x) kernel_size stride padding,
                el = f x\<rparr>)"

text \<open>The input rows (or columns) of one pooling window that lie inside the input.\<close>

definition window :: "nat \<Rightarrow> nat \<Rightarrow> nat \<Rightarrow> nat \<Rightarrow> nat \<Rightarrow> nat list" where
  "window h k s p oy =
     map (\<lambda>i. i - p) (filter (\<lambda>i. p \<le> i \<and> i < h + p) [oy * s ..< oy * s + k])"

fun maximum :: "real list \<Rightarrow> real" where
  "maximum [] = 0"
| "maximum [v] = v"
| "maximum (v # vs) = max v (maximum vs)"

definition MaxPool2d :: "nat \<Rightarrow> nat \<Rightarrow> nat \<Rightarrow> bool \<Rightarrow> tensor \<Rightarrow> error + tensor" where
  "MaxPool2d kernel_size stride padding ceil_mode x =
     (let oh = pool_out (th x) kernel_size stride padding ceil_mode;
          ow = pool_out (tw x) kernel_size stride padding ceil_mode
      in if oh < 1 \<or> ow < 1 then Inl OutputTooSmall
         else Inr \<lparr>tn = tn x, tc = tc x, th = nat oh, tw = nat ow,
                   el = (\<lambda>b c oy ox. maximum
                           (concat (map (\<lambda>iy. map (\<lambda>ix. el x b c iy ix)
                                                  (window (tw x) kernel_size stride padding ox))
                                        (window (th x) kernel_size stride padding oy))))\<rparr>)"

text \<open>
  The GoogLeNet inception block of the library: four branches that keep the spatial
  extents, concatenated on the channel axis.
\<close>

definition Inception ::
  "vals \<Rightarrow> nat \<Rightarrow> nat \<Rightarrow> nat \<Rightarrow> nat \<Rightarrow> nat \<Rightarrow> nat \<Rightarrow> nat \<Rightarrow> tensor \<Rightarrow> error + tensor" where
  "Inception f in_channels ch1x1 ch3x3red ch3x3 ch5x5red ch5x5 pool_proj x =
     (if tc x \<noteq> in_channels then Inl ChannelMismatch
      else if th x < 1 \<or> tw x < 1 then Inl OutputTooSmall
      else Inr \<lparr>tn = tn x, tc = ch1x1 + ch3x3 + ch5x5 + pool_proj,
                th = th x, tw = tw x, el = f x\<rparr>)"

text \<open>\<open>torch.cat\<close> on the channel axis: the other three extents must agree.\<close>

fun cat1 :: "tensor list \<Rightarrow> error + tensor" where
  "cat1 [] = Inl ShapeMismatch"
| "cat1 [t] = Inr t"
| "cat1 (t # ts) =
     bindE (cat1 ts) (\<lambda>r.
       if tn t = tn r \<and> th t = th r \<and> tw t = tw r
       then Inr \<lparr>tn = tn t, tc = tc t + tc r, th = th t, tw = tw t,
                 el = (\<lambda>b c. if c < tc t then el t b c else el r b (c - tc t))\<rparr>
       else Inl ShapeMismatch)"

text \<open>A \<open>1 \<times> 1\<close> convolution with bias, stride 1, no padding.\<close>

record conv2d =
  c_in :: nat
  c_out :: nat
  c_weight :: "nat \<Rightarrow> nat \<Rightarrow> real"
  c_bias :: "nat \<Rightarrow> real"

definition Conv2d :: "conv2d \<Rightarrow> tensor \<Rightarrow> error + tensor" where
  "Conv2d m x =
     (if tc x \<noteq> c_in m then Inl ChannelMismatch
      else Inr \<lparr>tn = tn x, tc = c_out m, th = th x, tw = tw x,
                el = (\<lambda>b co y xx. c_bias m co + (\<Sum>ci<c_in m. c_weight m co ci * el x b ci y xx))\<rparr>)"

text \<open>
  A transpose convolution without bias, padding or output padding: input pixel
  \<open>(iy, ix)\<close> of channel \<open>ci\<close> spreads over the output window that starts at
  \<open>(iy * stride, ix * stride)\<close>, weighted by the kernel \<open>weight ci co\<close>.
\<close>

record convT2d =
  t_in :: nat
  t_out :: nat
  t_kernel :: nat
  t_stride :: nat
  t_weight :: "nat \<Rightarrow> nat \<Rightarrow> nat \<Rightarrow> nat \<Rightarrow> real"

definition ConvTranspose2d :: "convT2d \<Rightarrow> tensor \<Rightarrow> error + tensor" where
  "ConvTranspose2d m x =
     (if tc x \<noteq> t_in m then Inl ChannelMismatch
      else Inr \<lparr>tn = tn x, tc = t_out m,
                th = th x * t_stride m + t_kernel m - t_stride m,
                tw = tw x * t_stride m + t_kernel m - t_stride m,
                el = (\<lambda>b co oy ox.
                        \<Sum>ci<t_in m. \<Sum>iy<th x. \<Sum>ix<tw x.
                          if iy * t_stride m \<le> oy \<and> oy < iy * t_stride m + t_kernel m \<and>
                             ix * t_stride m \<le> ox \<and> ox < ix * t_stride m + t_kernel m
                          then el x b ci iy ix *
                               t_weight m ci co (oy - iy * t_stride m) (ox - ix * t_stride m)
                          else 0)\<rparr>)"

text \<open>
  A slice \<open>t[:, :, off:off+h, off:off+w]\<close>. Slicing clamps the window to the tensor
  and never raises.
\<close>

definition crop :: "nat \<Rightarrow> nat \<Rightarrow> nat \<Rightarrow> tensor \<Rightarrow> tensor" where
  "crop off h w t =
     \<lparr>tn = tn t, tc = tc t,
      th = min (off + h) (th t) - min off (th t),
      tw = min (off + w) (tw t) - min off (tw t),
      el = (\<lambda>b c y x. el t b c (y + off) (x + off))\<rparr>"

text \<open>
  The in-place addition \<open>a += b\<close>: \<open>b\<close> is broadcast to the shape of \<open>a\<close>, which
  does not change; an extent of \<open>b\<close> that is neither that of \<open>a\<close> nor 1 raises.
\<close>

definition bcast :: "nat \<Rightarrow> nat \<Rightarrow> bool" where
  "bcast a b = (b = a \<or> b = 1)"

definition iadd :: "tensor \<Rightarrow> tensor \<Rightarrow> error + tensor" where
  "iadd a b =
     (if bcast (tn a) (tn b) \<and> bcast (tc a) (tc b) \<and> bcast (th a) (th b) \<and> bcast (tw a) (tw b)
      then Inr (a\<lparr>el := (\<lambda>n c y x. el a n c y x +
                    el b (if tn b = 1 then 0 else n) (if tc b = 1 then 0 else c)
                         (if th b = 1 then 0 else y) (if tw b = 1 then 0 else x))\<rparr>)
      else Inl ShapeMismatch)"

section \<open>The network\<close>

text \<open>
  \<open>Inception2\<close>: the four branches of the source, the third with a
  \<open>5 \<times> 5\<close> kernel and padding 2, concatenated on the channel axis.
\<close>

record inception2 =
  branch1 :: vals
  branch2a :: vals
  branch2b :: vals
  branch3a :: vals
  branch3b :: vals
  branch4 :: vals

definition Inception2 ::
  "inception2 \<Rightarrow> nat \<Rightarrow> nat \<Rightarrow> nat \<Rightarrow> nat \<Rightarrow> nat \<Rightarrow> nat \<Rightarrow> nat \<Rightarrow> tensor \<Rightarrow> error + tensor" where
  "Inception2 m in_channels ch1x1 ch3x3red ch3x3 ch5x5red ch5x5 pool_proj x =
     bindE (BasicConv2d (branch1 m) in_channels ch1x1 1 1 0 x) (\<lambda>b1.
     bindE (bindE (BasicConv2d (branch2a m) in_channels ch3x3red 1 1 0 x)
                  (BasicConv2d (branch2b m) ch3x3red ch3x3 3 1 1)) (\<lambda>b2.
     bindE (bindE (BasicConv2d (branch3a m) in_channels ch5x5red 1 1 0 x)
                  (BasicConv2d (branch3b m) ch5x5red ch5x5 5 1 2)) (\<lambda>b3.
     bindE (bindE (MaxPool2d 3 1 1 True x)
                  (BasicConv2d (branch4 m) in_channels pool_proj 1 1 0)) (\<lambda>b4.
     cat1 [b1, b2, b3, b4]))))"

text \<open>
  The network instance: the input-normalisation flag, the value functions of the
  library blocks of the encoder, the eight score projections, the eight upsampling
  operators and the box head, which is not part of this file and is kept as a
  function of the list of feature maps it is given.
\<close>

record ('l, 'c) net =
  transform_input :: bool
  conv1 :: vals
  conv2 :: vals
  conv3 :: vals
  inception3a :: vals
  inception3b :: vals
  inception4a :: vals
  inception4b :: vals
  inception4c :: vals
  inception4d :: vals
  inception4e :: vals
  inception5a :: vals
  inception5b :: vals
  inception6a :: inception2
  inception6b :: inception2
  inception7a :: inception2
  inception7b :: inception2
  sem_score3b :: conv2d
  sem_score4e :: conv2d
  sem_score5b :: conv2d
  sem_score6b :: conv2d
  sem_upscore :: convT2d
  sem_upscore2 :: convT2d
  sem_upscore4 :: convT2d
  sem_upscore8 :: convT2d
  offs_score3b :: conv2d
  offs_score4e :: conv2d
  offs_score5b :: conv2d
  offs_score6b :: conv2d
  offs_upscore :: convT2d
  offs_upscore2 :: convT2d
  offs_upscore4 :: convT2d
  offs_upscore8 :: convT2d
  multibox :: "tensor list \<Rightarrow> error + ('l \<times> 'c)"

text \<open>\<open>_transform_input\<close>: channels 0, 1, 2 are rescaled and concatenated.\<close>

definition transform_input_fn :: "tensor \<Rightarrow> error + tensor" where
  "transform_input_fn x =
     (if tc x < 3 then Inl IndexError
      else Inr \<lparr>tn = tn x, tc = 3, th = th x, tw = tw x,
                el = (\<lambda>b c y xx.
                   if c = 0 then el x b 0 y xx * (0.229 / 0.5) + (0.485 - 0.5) / 0.5
                   else if c = 1 then el x b 1 y xx * (0.224 / 0.5) + (0.456 - 0.5) / 0.5
                   else el x b 2 y xx * (0.225 / 0.5) + (0.406 - 0.5) / 0.5)\<rparr>)"

text \<open>
  The encoder part of \<open>forward\<close> (the lines up to the last inception block). It
  returns the five feature tensors the rest of \<open>forward\<close> reads: \<open>inception3b\<close>,
  \<open>inception4e\<close>, \<open>inception5b\<close>, \<open>inception6b\<close> and \<open>inception7b\<close>.
\<close>

type_synonym taps = "tensor \<times> tensor \<times> tensor \<times> tensor \<times> tensor"

definition encoder :: "('l, 'c) net \<Rightarrow> tensor \<Rightarrow> error + taps" where
  "encoder net x =
     bindE (if transform_input net then transform_input_fn x else Inr x) (\<lambda>x.
     bindE (BasicConv2d (conv1 net) 3 64 7 2 3 x) (\<lambda>x.
     bindE (MaxPool2d 3 2 0 True x) (\<lambda>x.
     bindE (BasicConv2d (conv2 net) 64 64 1 1 0 x) (\<lambda>x.
     bindE (BasicConv2d (conv3 net) 64 192 3 1 1 x) (\<lambda>x.
     bindE (MaxPool2d 3 2 0 True x) (\<lambda>x.
     bindE (Inception (inception3a net) 192 64 96 128 16 32 32 x) (\<lambda>x.
     bindE (Inception (inception3b net) 256 128 128 192 32 96 64 x) (\<lambda>i3b.
     bindE (MaxPool2d 3 2 0 True i3b) (\<lambda>x.
     bindE (Inception (inception4a net) 480 192 96 208 16 48 64 x) (\<lambda>x.
     bindE (Inception (inception4b net) 512 160 112 224 24 64 64 x) (\<lambda>x.
     bindE (Inception (inception4c net) 512 128 128 256 24 64 64 x) (\<lambda>x.
     bindE (Inception (inception4d net) 512 112 144 288 32 64 64 x) (\<lambda>x.
     bindE (Inception (inception4e net) 528 256 160 320 32 128 128 x) (\<lambda>i4e.
     bindE (MaxPool2d 2 2 0 True i4e) (\<lambda>x.
     bindE (Inception (inception5a net) 832 256 160 320 32 128 128 x) (\<lambda>x.
     bindE (Inception (inception5b net) 832 384 192 384 48 128 128 x) (\<lambda>i5b.
     bindE (MaxPool2d 2 2 0 True i5b) (\<lambda>x.
     bindE (Inception2 (inception6a net) 1024 256 160 320 32 128 128 x) (\<lambda>x.
     bindE (Inception2 (inception6b net) 832 384 192 384 48 128 128 x) (\<lambda>i6b.
     bindE (MaxPool2d 2 2 0 True i6b) (\<lambda>x.
     bindE (Inception2 (inception7a net) 1024 256 160 320 32 128 128 x) (\<lambda>x.
     bindE (Inception2 (inception7b net) 832 384 192 384 48 128 128 x) (\<lambda>i7b.
     Inr (i3b, i4e, i5b, i6b, i7b))))))))))))))))))))))))"

text \<open>The list \<open>feature_maps\<close> handed to the box head, in the order it is appended to.\<close>

definition feature_maps :: "taps \<Rightarrow> tensor list" where
  "feature_maps t = (case t of (i3b, i4e, i5b, i6b, i7b) \<Rightarrow> [i4e, i5b, i6b, i7b])"

text \<open>The feature tensors a dense path projects, from the shallowest to the deepest.\<close>

definition dense_inputs :: "taps \<Rightarrow> tensor list" where
  "dense_inputs t = (case t of (i3b, i4e, i5b, i6b, i7b) \<Rightarrow> [i3b, i4e, i5b, i6b])"

text \<open>
  One dense path of \<open>forward\<close>. The semantics lines and the offsets lines of the
  source are this sequence, each with its own four score projections and four
  upsampling operators; \<open>h\<close> and \<open>w\<close> are \<open>size[2]\<close> and \<open>size[3]\<close> of the image.
\<close>

definition dense_path ::
  "conv2d \<Rightarrow> conv2d \<Rightarrow> conv2d \<Rightarrow> conv2d \<Rightarrow> convT2d \<Rightarrow> convT2d \<Rightarrow> convT2d \<Rightarrow> convT2d \<Rightarrow>
   tensor list \<Rightarrow> nat \<Rightarrow> nat \<Rightarrow> error + tensor" where
  "dense_path score3b score4e score5b score6b upscore upscore2 upscore4 upscore8 ins h w =
     (case ins of
        [i3b, i4e, i5b, i6b] \<Rightarrow>
          bindE (Conv2d score6b i6b) (\<lambda>s6b.
          bindE (Conv2d score5b i5b) (\<lambda>s5b.
          bindE (ConvTranspose2d upscore s6b) (\<lambda>y.
          bindE (iadd (crop 1 (th s5b) (tw s5b) y) s5b) (\<lambda>y.
          bindE (Conv2d score4e i4e) (\<lambda>s4e.
          bindE (ConvTranspose2d upscore2 y) (\<lambda>y.
          bindE (iadd (crop 1 (th s4e) (tw s4e) y) s4e) (\<lambda>y.
          bindE (Conv2d score3b i3b) (\<lambda>s3b.
          bindE (ConvTranspose2d upscore4 y) (\<lambda>y.
          bindE (iadd (crop 1 (th s3b) (tw s3b) y) s3b) (\<lambda>y.
          bindE (ConvTranspose2d upscore8 y) (\<lambda>y.
          Inr (crop 4 h w y))))))))))))
      | _ \<Rightarrow> Inl IndexError)"

definition forward ::
  "('l, 'c) net \<Rightarrow> tensor \<Rightarrow> error + ('l \<times> 'c \<times> tensor \<times> tensor)" where
  "forward net x =
     bindE (encoder net x) (\<lambda>t.
     bindE (multibox net (feature_maps t)) (\<lambda>(loc_preds, conf_preds).
     bindE (dense_path (sem_score3b net) (sem_score4e net) (sem_score5b net) (sem_score6b net)
              (sem_upscore net) (sem_upscore2 net) (sem_upscore4 net) (sem_upscore8 net)
              (dense_inputs t) (th x) (tw x)) (\<lambda>semantics.
     bindE (dense_path (offs_score3b net) (offs_score4e net) (offs_score5b net) (offs_score6b net)
              (offs_upscore net) (offs_upscore2 net) (offs_upscore4 net) (offs_upscore8 net)
              (dense_inputs t) (th x) (tw x)) (\<lambda>offsets.
     Inr (loc_preds, conf_preds, semantics, offsets)))))"

section \<open>Construction and initialisation\<close>

text \<open>
  Modelled from the spec: \<open>get_upsampling_weight\<close> of \<open>utils.helper\<close>, which is
  not among the source files. The spec asks for the bilinear-interpolation kernel of
  the given size, the same two-dimensional filter for every channel, placed on the
  diagonal of the channel axes (input channel \<open>i\<close> feeds output channel \<open>i\<close> only).
  The one-dimensional bilinear filter of size \<open>k\<close> is \<open>1 - |i - center| / factor\<close>
  with \<open>factor = (k + 1) div 2\<close> and the centre at \<open>factor - 1\<close> for odd \<open>k\<close>,
  \<open>factor - 1/2\<close> for even \<open>k\<close>.
\<close>

definition bilinear1 :: "nat \<Rightarrow> nat \<Rightarrow> real" where
  "bilinear1 k i =
     (let factor = (k + 1) div 2;
          center = (if odd k then real factor - 1 else real factor - 1 / 2)
      in 1 - \<bar>real i - center\<bar> / real factor)"

definition get_upsampling_weight :: "nat \<Rightarrow> nat \<Rightarrow> nat \<Rightarrow> nat \<Rightarrow> nat \<Rightarrow> nat \<Rightarrow> real" where
  "get_upsampling_weight channels kernel_size =
     (\<lambda>ci co ky kx. if ci = co \<and> ci < channels
                     then bilinear1 kernel_size ky * bilinear1 kernel_size kx else 0)"

text \<open>
  What \<open>_initialize_weights\<close> sees of a module: its class and, for a convolution, the
  first kernel extent, the number of output channels and whether it owns a bias
  (the bias of a convolution built with \<open>bias=False\<close> is \<open>None\<close>). Modules of any
  other class are left alone by the initialiser.
\<close>

datatype module =
    Conv2d_mod nat nat bool
  | ConvTranspose2d_mod nat nat
  | BatchNorm2d_mod
  | Other_mod

datatype init = Zero_weight_and_bias | Xavier_weight | Bilinear_weight nat nat
  | One_weight_zero_bias | Untouched

text \<open>
  One round of the loop of \<open>_initialize_weights\<close>. \<open>nn.init.constant_(m.bias, 0)\<close>
  raises on a bias that is \<open>None\<close>.
\<close>

fun init_module :: "nat \<Rightarrow> module \<Rightarrow> error + init" where
  "init_module num_classes (Conv2d_mod k out_channels has_bias) =
     (if k = 1 \<and> out_channels \<in> set [num_classes, 2]
      then (if has_bias then Inr Zero_weight_and_bias else Inl AttributeError)
      else Inr Xavier_weight)"
| "init_module num_classes (ConvTranspose2d_mod out_channels k) = Inr (Bilinear_weight out_channels k)"
| "init_module num_classes BatchNorm2d_mod = Inr One_weight_zero_bias"
| "init_module num_classes Other_mod = Inr Untouched"

fun initialize_weights :: "nat \<Rightarrow> module list \<Rightarrow> error + init list" where
  "initialize_weights num_classes [] = Inr []"
| "initialize_weights num_classes (m # ms) =
     bindE (init_module num_classes m) (\<lambda>i.
     bindE (initialize_weights num_classes ms) (\<lambda>is. Inr (i # is)))"

text \<open>
  The modules of the library blocks: \<open>BasicConv2d\<close> is a convolution without bias
  followed by a batch normalisation; the GoogLeNet \<open>Inception\<close> block holds six of
  them and a pooling layer.
\<close>

definition BasicConv2d_modules :: "nat \<Rightarrow> nat \<Rightarrow> module list" where
  "BasicConv2d_modules out_channels kernel_size =
     [Other_mod, Conv2d_mod kernel_size out_channels False, BatchNorm2d_mod]"

definition Inception_modules :: "nat \<Rightarrow> nat \<Rightarrow> nat \<Rightarrow> nat \<Rightarrow> nat \<Rightarrow> nat \<Rightarrow> module list" where
  "Inception_modules ch1x1 ch3x3red ch3x3 ch5x5red ch5x5 pool_proj =
     Other_mod # BasicConv2d_modules ch1x1 1
     @ Other_mod # BasicConv2d_modules ch3x3red 1 @ BasicConv2d_modules ch3x3 3
     @ Other_mod # BasicConv2d_modules ch5x5red 1 @ BasicConv2d_modules ch5x5 3
     @ Other_mod # Other_mod # BasicConv2d_modules pool_proj 1"

definition Inception2_modules :: "nat \<Rightarrow> nat \<Rightarrow> nat \<Rightarrow> nat \<Rightarrow> nat \<Rightarrow> nat \<Rightarrow> module list" where
  "Inception2_modules ch1x1 ch3x3red ch3x3 ch5x5red ch5x5 pool_proj =
     Other_mod # BasicConv2d_modules ch1x1 1
     @ Other_mod # BasicConv2d_modules ch3x3red 1 @ BasicConv2d_modules ch3x3 3
     @ Other_mod # BasicConv2d_modules ch5x5red 1 @ BasicConv2d_modules ch5x5 5
     @ Other_mod # Other_mod # BasicConv2d_modules pool_proj 1"

text \<open>
  \<open>self.modules()\<close> of a network under construction, in the order of registration
  in \<open>__init__\<close>; \<open>mb\<close> are the modules of the box head.
\<close>

definition Box2Pix_modules :: "nat \<Rightarrow> module list \<Rightarrow> module list" where
  "Box2Pix_modules num_classes mb =
     Other_mod # BasicConv2d_modules 64 7 @ Other_mod # BasicConv2d_modules 64 1
     @ BasicConv2d_modules 192 3
     @ Other_mod # Inception_modules 64 96 128 16 32 32 @ Inception_modules 128 128 192 32 96 64
     @ Other_mod # Inception_modules 192 96 208 16 48 64 @ Inception_modules 160 112 224 24 64 64
     @ Inception_modules 128 128 256 24 64 64 @ Inception_modules 112 144 288 32 64 64
     @ Inception_modules 256 160 320 32 128 128
     @ Other_mod # Inception_modules 256 160 320 32 128 128 @ Inception_modules 384 192 384 48 128 128
     @ Other_mod # Inception2_modules 256 160 320 32 128 128 @ Inception2_modules 384 192 384 48 128 128
     @ Other_mod # Inception2_modules 256 160 320 32 128 128 @ Inception2_modules 384 192 384 48 128 128
     @ [Conv2d_mod 1 num_classes True, Conv2d_mod 1 num_classes True,
        Conv2d_mod 1 num_classes True, Conv2d_mod 1 num_classes True,
        ConvTranspose2d_mod num_classes 4, ConvTranspose2d_mod num_classes 4,
        ConvTranspose2d_mod num_classes 4, ConvTranspose2d_mod num_classes 16,
        Conv2d_mod 1 2 True, Conv2d_mod 1 2 True, Conv2d_mod 1 2 True, Conv2d_mod 1 2 True,
        ConvTranspose2d_mod 2 4, ConvTranspose2d_mod 2 4,
        ConvTranspose2d_mod 2 4, ConvTranspose2d_mod 2 16]
     @ mb"

text \<open>
  The initialiser on one score projection (kernel extent \<open>k\<close>) and on one upsampling
  operator, as values: the branch taken is the one \<open>init_module\<close> takes.
\<close>

definition init_conv2d :: "nat \<Rightarrow> nat \<Rightarrow> conv2d \<Rightarrow> conv2d" where
  "init_conv2d num_classes k m =
     (if k = 1 \<and> c_out m \<in> set [num_classes, 2]
      then m\<lparr>c_weight := (\<lambda>co ci. 0), c_bias := (\<lambda>co. 0)\<rparr>
      else m)"

definition init_convT2d :: "convT2d \<Rightarrow> convT2d" where
  "init_convT2d m = m\<lparr>t_weight := get_upsampling_weight (t_out m) (t_kernel m)\<rparr>"

definition new_Conv2d :: "conv2d \<Rightarrow> nat \<Rightarrow> nat \<Rightarrow> conv2d" where
  "new_Conv2d rnd in_channels out_channels = rnd\<lparr>c_in := in_channels, c_out := out_channels\<rparr>"

definition new_ConvTranspose2d :: "convT2d \<Rightarrow> nat \<Rightarrow> nat \<Rightarrow> nat \<Rightarrow> nat \<Rightarrow> convT2d" where
  "new_ConvTranspose2d rnd in_channels out_channels kernel_size stride =
     rnd\<lparr>t_in := in_channels, t_out := out_channels, t_kernel := kernel_size, t_stride := stride\<rparr>"

text \<open>
  \<open>Box2Pix.__init__\<close>. The argument \<open>rnd\<close> carries everything the constructor
  draws at random or takes from the library: the library blocks of the encoder, the
  box head and the default parameters of the sixteen convolutions, which
  \<open>_initialize_weights\<close> then overwrites.
\<close>

definition Box2Pix ::
  "('l, 'c) net \<Rightarrow> module list \<Rightarrow> nat \<Rightarrow> bool \<Rightarrow> error + ('l, 'c) net" where
  "Box2Pix rnd mb num_classes transform_input_arg =
     bindE (initialize_weights num_classes (Box2Pix_modules num_classes mb)) (\<lambda>_.
     Inr (rnd\<lparr>transform_input := transform_input_arg,
       sem_score3b := init_conv2d num_classes 1 (new_Conv2d (sem_score3b rnd) 480 num_classes),
       sem_score4e := init_conv2d num_classes 1 (new_Conv2d (sem_score4e rnd) 832 num_classes),
       sem_score5b := init_conv2d num_classes 1 (new_Conv2d (sem_score5b rnd) 1024 num_classes),
       sem_score6b := init_conv2d num_classes 1 (new_Conv2d (sem_score6b rnd) 1024 num_classes),
       sem_upscore := init_convT2d (new_ConvTranspose2d (sem_upscore rnd) num_classes num_classes 4 2),
       sem_upscore2 := init_convT2d (new_ConvTranspose2d (sem_upscore2 rnd) num_classes num_classes 4 2),
       sem_upscore4 := init_convT2d (new_ConvTranspose2d (sem_upscore4 rnd) num_classes num_classes 4 2),
       sem_upscore8 := init_convT2d (new_ConvTranspose2d (sem_upscore8 rnd) num_classes num_classes 16 8),
       offs_score3b := init_conv2d num_classes 1 (new_Conv2d (offs_score3b rnd) 480 2),
       offs_score4e := init_conv2d num_classes 1 (new_Conv2d (offs_score4e rnd) 832 2),
       offs_score5b := init_conv2d num_classes 1 (new_Conv2d (offs_score5b rnd) 1024 2),
       offs_score6b := init_conv2d num_classes 1 (new_Conv2d (offs_score6b rnd) 1024 2),
       offs_upscore := init_convT2d (new_ConvTranspose2d (offs_upscore rnd) 2 2 4 2),
       offs_upscore2 := init_convT2d (new_ConvTranspose2d (offs_upscore2 rnd) 2 2 4 2),
       offs_upscore4 := init_convT2d (new_ConvTranspose2d (offs_upscore4 rnd) 2 2 4 2),
       offs_upscore8 := init_convT2d (new_ConvTranspose2d (offs_upscore8 rnd) 2 2 16 8)\<rparr>))"

section \<open>Spatial extents along the encoder\<close>

text \<open>
  The height (or width) of the feature tensors for an image of height \<open>h\<close>: after
  the stem and two pooling layers (\<open>inception3b\<close>), and after each further pooling
  layer (\<open>inception4e\<close>, \<open>inception5b\<close>, \<open>inception6b\<close>, \<open>inception7b\<close>).
\<close>

definition ext3b :: "nat \<Rightarrow> nat" where "ext3b h = (h + 1) div 2 div 2 div 2"
definition ext4e :: "nat \<Rightarrow> nat" where "ext4e h = ext3b h div 2"
definition ext5b :: "nat \<Rightarrow> nat" where "ext5b h = (ext4e h + 1) div 2"
definition ext6b :: "nat \<Rightarrow> nat" where "ext6b h = (ext5b h + 1) div 2"
definition ext7b :: "nat \<Rightarrow> nat" where "ext7b h = (ext6b h + 1) div 2"

text \<open>
  The height (or width) of the two dense outputs for an image of height \<open>h\<close>: the
  final upsampling yields \<open>8 * ext3b h + 8\<close> rows, of which the slice
  \<open>4 : 4 + h\<close> keeps at most \<open>8 * ext3b h + 4\<close>.
\<close>

definition out_ext :: "nat \<Rightarrow> nat" where
  "out_ext h = (if h mod 8 = 5 then h - 1 else if h mod 8 = 6 then h - 2 else h)"

text \<open>
  The static architecture of \<open>__init__\<close>: channel counts, kernel extents and strides
  of the sixteen convolutions of the dense paths. Training changes weights, never these.
\<close>

definition dense_arch ::
  "nat \<Rightarrow> conv2d \<Rightarrow> conv2d \<Rightarrow> conv2d \<Rightarrow> conv2d \<Rightarrow> convT2d \<Rightarrow> convT2d \<Rightarrow> convT2d \<Rightarrow> convT2d \<Rightarrow> bool" where
  "dense_arch c score3b score4e score5b score6b upscore upscore2 upscore4 upscore8 =
     (c_in score3b = 480 \<and> c_in score4e = 832 \<and> c_in score5b = 1024 \<and> c_in score6b = 1024 \<and>
      c_out score3b = c \<and> c_out score4e = c \<and> c_out score5b = c \<and> c_out score6b = c \<and>
      t_in upscore = c \<and> t_in upscore2 = c \<and> t_in upscore4 = c \<and> t_in upscore8 = c \<and>
      t_out upscore = c \<and> t_out upscore2 = c \<and> t_out upscore4 = c \<and> t_out upscore8 = c \<and>
      t_kernel upscore = 4 \<and> t_kernel upscore2 = 4 \<and> t_kernel upscore4 = 4 \<and>
      t_kernel upscore8 = 16 \<and>
      t_stride upscore = 2 \<and> t_stride upscore2 = 2 \<and> t_stride upscore4 = 2 \<and>
      t_stride upscore8 = 8)"

definition arch :: "nat \<Rightarrow> ('l, 'c) net \<Rightarrow> bool" where
  "arch num_classes net =
     (dense_arch num_classes (sem_score3b net) (sem_score4e net) (sem_score5b net)
        (sem_score6b net) (sem_upscore net) (sem_upscore2 net) (sem_upscore4 net)
        (sem_upscore8 net) \<and>
      dense_arch 2 (offs_score3b net) (offs_score4e net) (offs_score5b net)
        (offs_score6b net) (offs_upscore net) (offs_upscore2 net) (offs_upscore4 net)
        (offs_upscore8 net))"

text \<open>A score projection whose weight and bias are all zero.\<close>

definition zero_conv :: "conv2d \<Rightarrow> bool" where
  "zero_conv m = ((\<forall>co ci. c_weight m co ci = 0) \<and> (\<forall>co. c_bias m co = 0))"

text \<open>The box head returns on every list of four feature maps.\<close>

definition box_head_ok :: "('l, 'c) net \<Rightarrow> bool" where
  "box_head_ok net = (\<forall>fs. length fs = 4 \<longrightarrow> (\<exists>r. multibox net fs = Inr r))"

section \<open>The factory function\<close>

text \<open>
  Keyword arguments are an association list. \<open>Box2Pix.__init__\<close> accepts the single
  keyword \<open>transform_input\<close>, default \<open>False\<close>; any other keyword raises.
\<close>

definition Box2Pix_kwargs ::
  "('l, 'c) net \<Rightarrow> module list \<Rightarrow> nat \<Rightarrow> (string \<times> bool) list \<Rightarrow> error + ('l, 'c) net" where
  "Box2Pix_kwargs rnd mb num_classes kwargs =
     (if \<exists>k \<in> set (map fst kwargs). k \<noteq> ''transform_input'' then Inl TypeError
      else Box2Pix rnd mb num_classes
             (case map_of kwargs ''transform_input'' of None \<Rightarrow> False | Some v \<Rightarrow> v))"

text \<open>
  \<open>box2pix\<close>. \<open>model_zoo.load_url\<close> and \<open>load_state_dict\<close> belong to the
  library and are parameters here; the URL handed to \<open>load_url\<close> is the empty string.
\<close>

definition box2pix ::
  "(string \<Rightarrow> error + 'sd) \<Rightarrow> (('l, 'c) net \<Rightarrow> 'sd \<Rightarrow> error + ('l, 'c) net) \<Rightarrow>
   ('l, 'c) net \<Rightarrow> module list \<Rightarrow> nat \<Rightarrow> bool \<Rightarrow> (string \<times> bool) list \<Rightarrow> error + ('l, 'c) net" where
  "box2pix load_url load_state_dict rnd mb num_classes pretrained kwargs =
     (if pretrained then
        (let kwargs1 = (if ''transform_input'' \<notin> set (map fst kwargs)
                        then kwargs @ [(''transform_input'', True)] else kwargs)
         in bindE (Box2Pix_kwargs rnd mb num_classes kwargs1) (\<lambda>model.
            bindE (load_url []) (\<lambda>sd.
            bindE (load_state_dict model sd) (\<lambda>model. Inr model))))
      else Box2Pix_kwargs rnd mb num_classes kwargs)"

section \<open>Which constructions the initialiser lets through\<close>

text \<open>
  The output channel counts of the \<open>1 \<times> 1\<close> convolutions without bias among a list
  of modules: on these \<open>_initialize_weights\<close> raises when the count is
  \<open>num_classes\<close> or 2.
\<close>

fun bias_free_1x1 :: "module list \<Rightarrow> nat list" where
  "bias_free_1x1 [] = []"
| "bias_free_1x1 (Conv2d_mod k out_channels has_bias # ms) =
     (if k = 1 \<and> \<not> has_bias then out_channels # bias_free_1x1 ms else bias_free_1x1 ms)"
| "bias_free_1x1 (m # ms) = bias_free_1x1 ms"

section \<open>A concrete network and concrete images\<close>

text \<open>
  Concrete inputs for evaluation: the image of a given shape with every entry \<open>v\<close>,
  and one possible outcome of the random draws of the constructor, in which every
  library block returns 1 everywhere, every default parameter is 1 and the box head
  returns an empty pair.
\<close>

definition const_image :: "real \<Rightarrow> nat \<Rightarrow> nat \<Rightarrow> nat \<Rightarrow> nat \<Rightarrow> tensor" where
  "const_image v n c h w = \<lparr>tn = n, tc = c, th = h, tw = w, el = (\<lambda>b k i j. v)\<rparr>"

definition ones :: vals where
  "ones = (\<lambda>x b k i j. 1)"

definition ones2 :: inception2 where
  "ones2 = \<lparr>branch1 = ones, branch2a = ones, branch2b = ones, branch3a = ones,
            branch3b = ones, branch4 = ones\<rparr>"

definition conv_default :: conv2d where
  "conv_default = \<lparr>c_in = 0, c_out = 0, c_weight = (\<lambda>co ci. 1), c_bias = (\<lambda>co. 1)\<rparr>"

definition convT_default :: convT2d where
  "convT_default = \<lparr>t_in = 0, t_out = 0, t_kernel = 0, t_stride = 0,
                     t_weight = (\<lambda>ci co ky kx. 1)\<rparr>"

definition rnd0 :: "(unit, unit) net" where
  "rnd0 = \<lparr>transform_input = False,
     conv1 = ones, conv2 = ones, conv3 = ones,
     inception3a = ones, inception3b = ones,
     inception4a = ones, inception4b = ones, inception4c = ones, inception4d = ones,
     inception4e = ones, inception5a = ones, inception5b = ones,
     inception6a = ones2, inception6b = ones2, inception7a = ones2, inception7b = ones2,
     sem_score3b = conv_default, sem_score4e = conv_default, sem_score5b = conv_default,
     sem_score6b = conv_default,
     sem_upscore = convT_default, sem_upscore2 = convT_default, sem_upscore4 = convT_default,
     sem_upscore8 = convT_default,
     offs_score3b = conv_default, offs_score4e = conv_default, offs_score5b = conv_default,
     offs_score6b = conv_default,
     offs_upscore = convT_default, offs_upscore2 = convT_default, offs_upscore4 = convT_default,
     offs_upscore8 = convT_default,
     multibox = (\<lambda>fs. Inr ((), ()))\<rparr>"

text \<open>
  A loader that fails on the empty URL and on no other, and a \<open>load_state_dict\<close>
  that accepts every state dict.
\<close>

definition failing_loader :: "string \<Rightarrow> error + unit" where
  "failing_loader url = (if url = [] then Inl LoadError else Inr ())"

definition accept_state_dict :: "('l, 'c) net \<Rightarrow> unit \<Rightarrow> error + ('l, 'c) net" where
  "accept_state_dict model sd = Inr model"

text \<open>The shapes of the two dense outputs of a forward pass, or its error.\<close>

definition shape_of :: "tensor \<Rightarrow> nat \<times> nat \<times> nat \<times> nat" where
  "shape_of t = (tn t, tc t, th t, tw t)"

definition out_shapes ::
  "error + ('l \<times> 'c \<times> tensor \<times> tensor) \<Rightarrow> error + ((nat \<times> nat \<times> nat \<times> nat) \<times> (nat \<times> nat \<times> nat \<times> nat))" where
  "out_shapes r =
     (case r of Inl e \<Rightarrow> Inl e
      | Inr (l, c, sem, offs) \<Rightarrow> Inr (shape_of sem, shape_of offs))"

section \<open>Shapes of the layers\<close>

lemma bindE_Inr [simp]: "bindE (Inr x) f = f x" by (simp add: bindE_def)
lemma bindE_Inl [simp]: "bindE (Inl e) f = Inl e" by (simp add: bindE_def)

lemma pool_out_3_2: "2 \<le> h \<Longrightarrow> pool_out h 3 2 0 True = int (h div 2)"
  unfolding pool_out_def Let_def by (simp add: zdiv_int) linarith

lemma pool_out_2_2: "1 \<le> h \<Longrightarrow> pool_out h 2 2 0 True = int ((h + 1) div 2)"
  unfolding pool_out_def Let_def by (simp add: zdiv_int) linarith

lemma pool_out_3_1: "1 \<le> h \<Longrightarrow> pool_out h 3 1 1 True = int h"
  unfolding pool_out_def Let_def by simp

lemma conv_out_7: "1 \<le> h \<Longrightarrow> conv_out h 7 2 3 = (h + 1) div 2"
  unfolding conv_out_def by simp

lemma conv_out_1 [simp]: "1 \<le> h \<Longrightarrow> conv_out h 1 1 0 = h"
  unfolding conv_out_def by (cases h) auto

lemma conv_out_3 [simp]: "1 \<le> h \<Longrightarrow> conv_out h 3 1 1 = h"
  unfolding conv_out_def by (cases h) auto

lemma conv_out_5 [simp]: "1 \<le> h \<Longrightarrow> conv_out h 5 1 2 = h"
  unfolding conv_out_def by simp

lemma BasicConv2d_shape:
  "has_shape x n cin h w \<Longrightarrow> k \<le> h + 2 * p \<Longrightarrow> k \<le> w + 2 * p \<Longrightarrow>
   \<exists>y. BasicConv2d f cin cout k s p x = Inr y \<and>
       has_shape y n cout (conv_out h k s p) (conv_out w k s p)"
  by (auto simp add: BasicConv2d_def has_shape_def)

lemma BasicConv2d_1x1:
  "has_shape x n cin h w \<Longrightarrow> 1 \<le> h \<Longrightarrow> 1 \<le> w \<Longrightarrow>
   \<exists>y. BasicConv2d f cin cout 1 1 0 x = Inr y \<and> has_shape y n cout h w"
  by (auto simp add: BasicConv2d_def has_shape_def conv_out_def)

lemma BasicConv2d_3x3:
  "has_shape x n cin h w \<Longrightarrow> 1 \<le> h \<Longrightarrow> 1 \<le> w \<Longrightarrow>
   \<exists>y. BasicConv2d f cin cout 3 1 1 x = Inr y \<and> has_shape y n cout h w"
  by (auto simp add: BasicConv2d_def has_shape_def conv_out_def)

lemma BasicConv2d_5x5:
  "has_shape x n cin h w \<Longrightarrow> 1 \<le> h \<Longrightarrow> 1 \<le> w \<Longrightarrow>
   \<exists>y. BasicConv2d f cin cout 5 1 2 x = Inr y \<and> has_shape y n cout h w"
  by (auto simp add: BasicConv2d_def has_shape_def conv_out_def)

lemma MaxPool2d_3_2_shape:
  "has_shape x n c h w \<Longrightarrow> 2 \<le> h \<Longrightarrow> 2 \<le> w \<Longrightarrow>
   \<exists>y. MaxPool2d 3 2 0 True x = Inr y \<and> has_shape y n c (h div 2) (w div 2)"
  by (simp add: MaxPool2d_def has_shape_def pool_out_3_2 Let_def)

lemma MaxPool2d_2_2_shape:
  "has_shape x n c h w \<Longrightarrow> 1 \<le> h \<Longrightarrow> 1 \<le> w \<Longrightarrow>
   \<exists>y. MaxPool2d 2 2 0 True x = Inr y \<and> has_shape y n c ((h + 1) div 2) ((w + 1) div 2)"
  by (simp add: MaxPool2d_def has_shape_def pool_out_2_2 Let_def)

lemma MaxPool2d_3_1_shape:
  "has_shape x n c h w \<Longrightarrow> 1 \<le> h \<Longrightarrow> 1 \<le> w \<Longrightarrow>
   \<exists>y. MaxPool2d 3 1 1 True x = Inr y \<and> has_shape y n c h w"
  using pool_out_3_1 [of h] pool_out_3_1 [of w]
  by (simp add: MaxPool2d_def has_shape_def Let_def)

lemma Inception_shape:
  "has_shape x n cin h w \<Longrightarrow> 1 \<le> h \<Longrightarrow> 1 \<le> w \<Longrightarrow>
   \<exists>y. Inception f cin c1 c3r c3 c5r c5 pp x = Inr y \<and> has_shape y n (c1 + c3 + c5 + pp) h w"
  by (auto simp add: Inception_def has_shape_def)

lemma Inception2_shape:
  assumes x: "has_shape x n cin h w" and h: "1 \<le> h" and w: "1 \<le> w"
  shows "\<exists>y. Inception2 m cin c1 c3r c3 c5r c5 pp x = Inr y \<and>
             has_shape y n (c1 + c3 + c5 + pp) h w"
proof -
  obtain b1 where b1: "BasicConv2d (branch1 m) cin c1 1 1 0 x = Inr b1" "has_shape b1 n c1 h w"
    using BasicConv2d_1x1 [OF x h w] by blast
  obtain r2 where r2: "BasicConv2d (branch2a m) cin c3r 1 1 0 x = Inr r2" "has_shape r2 n c3r h w"
    using BasicConv2d_1x1 [OF x h w] by blast
  obtain b2 where b2: "BasicConv2d (branch2b m) c3r c3 3 1 1 r2 = Inr b2" "has_shape b2 n c3 h w"
    using BasicConv2d_3x3 [OF r2(2) h w] by blast
  obtain r3 where r3: "BasicConv2d (branch3a m) cin c5r 1 1 0 x = Inr r3" "has_shape r3 n c5r h w"
    using BasicConv2d_1x1 [OF x h w] by blast
  obtain b3 where b3: "BasicConv2d (branch3b m) c5r c5 5 1 2 r3 = Inr b3" "has_shape b3 n c5 h w"
    using BasicConv2d_5x5 [OF r3(2) h w] by blast
  obtain r4 where r4: "MaxPool2d 3 1 1 True x = Inr r4" "has_shape r4 n cin h w"
    using MaxPool2d_3_1_shape [OF x h w] by blast
  obtain b4 where b4: "BasicConv2d (branch4 m) cin pp 1 1 0 r4 = Inr b4" "has_shape b4 n pp h w"
    using BasicConv2d_1x1 [OF r4(2) h w] by blast
  show ?thesis
    using b1 b2 b3 b4 r2 r3 r4
    by (simp add: Inception2_def has_shape_def)
qed

lemma transform_shape:
  "has_shape x n 3 h w \<Longrightarrow>
   \<exists>y. (if transform_input net then transform_input_fn x else Inr x) = Inr y \<and>
       has_shape y n 3 h w"
  by (cases "transform_input net") (simp_all add: transform_input_fn_def has_shape_def)

lemma conv1_shape:
  "has_shape x n 3 h w \<Longrightarrow> 1 \<le> h \<Longrightarrow> 1 \<le> w \<Longrightarrow>
   \<exists>y. BasicConv2d f 3 64 7 2 3 x = Inr y \<and> has_shape y n 64 ((h + 1) div 2) ((w + 1) div 2)"
  by (auto simp add: BasicConv2d_def has_shape_def conv_out_def)

lemma encoder_shape:
  assumes x: "has_shape x n 3 h w" and h: "15 \<le> h" and w: "15 \<le> w"
  shows "\<exists>i3b i4e i5b i6b i7b. encoder net x = Inr (i3b, i4e, i5b, i6b, i7b) \<and>
           has_shape i3b n 480 (ext3b h) (ext3b w) \<and>
           has_shape i4e n 832 (ext4e h) (ext4e w) \<and>
           has_shape i5b n 1024 (ext5b h) (ext5b w) \<and>
           has_shape i6b n 1024 (ext6b h) (ext6b w) \<and>
           has_shape i7b n 1024 (ext7b h) (ext7b w)"
proof -
  have h1: "1 \<le> h" "1 \<le> w" using h w by simp_all
  have a1: "2 \<le> (h + 1) div 2" "2 \<le> (w + 1) div 2" using h w by simp_all
  have a2: "1 \<le> (h + 1) div 2 div 2" "1 \<le> (w + 1) div 2 div 2" using h w by simp_all
  have a3: "2 \<le> (h + 1) div 2 div 2" "2 \<le> (w + 1) div 2 div 2" using h w by simp_all
  have e3: "2 \<le> ext3b h" "2 \<le> ext3b w" "1 \<le> ext3b h" "1 \<le> ext3b w"
    using h w by (simp_all add: ext3b_def)
  have e4: "1 \<le> ext4e h" "1 \<le> ext4e w" using e3 by (simp_all add: ext4e_def)
  have e5: "1 \<le> ext5b h" "1 \<le> ext5b w" using e4 by (simp_all add: ext5b_def)
  have e6: "1 \<le> ext6b h" "1 \<le> ext6b w" using e5 by (simp_all add: ext6b_def)
  have e7: "1 \<le> ext7b h" "1 \<le> ext7b w" using e6 by (simp_all add: ext7b_def)
  obtain x0 where x0: "(if transform_input net then transform_input_fn x else Inr x) = Inr x0"
      "has_shape x0 n 3 h w"
    using transform_shape [OF x] by blast
  obtain x1 where x1: "BasicConv2d (conv1 net) 3 64 7 2 3 x0 = Inr x1"
      "has_shape x1 n 64 ((h + 1) div 2) ((w + 1) div 2)"
    using conv1_shape [OF x0(2) h1]
    by blast
  obtain x2 where x2: "MaxPool2d 3 2 0 True x1 = Inr x2"
      "has_shape x2 n 64 ((h + 1) div 2 div 2) ((w + 1) div 2 div 2)"
    using MaxPool2d_3_2_shape [OF x1(2) a1]
    by blast
  obtain x3 where x3: "BasicConv2d (conv2 net) 64 64 1 1 0 x2 = Inr x3"
      "has_shape x3 n 64 ((h + 1) div 2 div 2) ((w + 1) div 2 div 2)"
    using BasicConv2d_1x1 [OF x2(2) a2]
    by blast
  obtain x4 where x4: "BasicConv2d (conv3 net) 64 192 3 1 1 x3 = Inr x4"
      "has_shape x4 n 192 ((h + 1) div 2 div 2) ((w + 1) div 2 div 2)"
    using BasicConv2d_3x3 [OF x3(2) a2]
    by blast
  obtain x5 where x5: "MaxPool2d 3 2 0 True x4 = Inr x5"
      "has_shape x5 n 192 (ext3b h) (ext3b w)"
    using MaxPool2d_3_2_shape [OF x4(2) a3]
    unfolding ext3b_def
    by blast
  obtain x6 where x6: "Inception (inception3a net) 192 64 96 128 16 32 32 x5 = Inr x6"
      "has_shape x6 n (64 + 128 + 32 + 32) (ext3b h) (ext3b w)"
    using Inception_shape [OF x5(2) e3(3,4)]
    by blast
  note x6 = x6(1) x6(2) [simplified]
  obtain i3b where i3b: "Inception (inception3b net) 256 128 128 192 32 96 64 x6 = Inr i3b"
      "has_shape i3b n (128 + 192 + 96 + 64) (ext3b h) (ext3b w)"
    using Inception_shape [OF x6(2) e3(3,4)]
    by blast
  note i3b = i3b(1) i3b(2) [simplified]
  obtain x7 where x7: "MaxPool2d 3 2 0 True i3b = Inr x7"
      "has_shape x7 n 480 (ext4e h) (ext4e w)"
    using MaxPool2d_3_2_shape [OF i3b(2) e3(1,2)]
    unfolding ext4e_def
    by blast
  obtain x8 where x8: "Inception (inception4a net) 480 192 96 208 16 48 64 x7 = Inr x8"
      "has_shape x8 n (192 + 208 + 48 + 64) (ext4e h) (ext4e w)"
    using Inception_shape [OF x7(2) e4]
    by blast
  note x8 = x8(1) x8(2) [simplified]
  obtain x9 where x9: "Inception (inception4b net) 512 160 112 224 24 64 64 x8 = Inr x9"
      "has_shape x9 n (160 + 224 + 64 + 64) (ext4e h) (ext4e w)"
    using Inception_shape [OF x8(2) e4]
    by blast
  note x9 = x9(1) x9(2) [simplified]
  obtain x10 where x10: "Inception (inception4c net) 512 128 128 256 24 64 64 x9 = Inr x10"
      "has_shape x10 n (128 + 256 + 64 + 64) (ext4e h) (ext4e w)"
    using Inception_shape [OF x9(2) e4]
    by blast
  note x10 = x10(1) x10(2) [simplified]
  obtain x11 where x11: "Inception (inception4d net) 512 112 144 288 32 64 64 x10 = Inr x11"
      "has_shape x11 n (112 + 288 + 64 + 64) (ext4e h) (ext4e w)"
    using Inception_shape [OF x10(2) e4]
    by blast
  note x11 = x11(1) x11(2) [simplified]
  obtain i4e where i4e: "Inception (inception4e net) 528 256 160 320 32 128 128 x11 = Inr i4e"
      "has_shape i4e n (256 + 320 + 128 + 128) (ext4e h) (ext4e w)"
    using Inception_shape [OF x11(2) e4]
    by blast
  note i4e = i4e(1) i4e(2) [simplified]
  obtain x12 where x12: "MaxPool2d 2 2 0 True i4e = Inr x12"
      "has_shape x12 n 832 (ext5b h) (ext5b w)"
    using MaxPool2d_2_2_shape [OF i4e(2) e4]
    unfolding ext5b_def
    by blast
  obtain x13 where x13: "Inception (inception5a net) 832 256 160 320 32 128 128 x12 = Inr x13"
      "has_shape x13 n (256 + 320 + 128 + 128) (ext5b h) (ext5b w)"
    using Inception_shape [OF x12(2) e5]
    by blast
  note x13 = x13(1) x13(2) [simplified]
  obtain i5b where i5b: "Inception (inception5b net) 832 384 192 384 48 128 128 x13 = Inr i5b"
      "has_shape i5b n (384 + 384 + 128 + 128) (ext5b h) (ext5b w)"
    using Inception_shape [OF x13(2) e5]
    by blast
  note i5b = i5b(1) i5b(2) [simplified]
  obtain x14 where x14: "MaxPool2d 2 2 0 True i5b = Inr x14"
      "has_shape x14 n 1024 (ext6b h) (ext6b w)"
    using MaxPool2d_2_2_shape [OF i5b(2) e5]
    unfolding ext6b_def
    by blast
  obtain x15 where x15: "Inception2 (inception6a net) 1024 256 160 320 32 128 128 x14 = Inr x15"
      "has_shape x15 n (256 + 320 + 128 + 128) (ext6b h) (ext6b w)"
    using Inception2_shape [OF x14(2) e6]
    by blast
  note x15 = x15(1) x15(2) [simplified]
  obtain i6b where i6b: "Inception2 (inception6b net) 832 384 192 384 48 128 128 x15 = Inr i6b"
      "has_shape i6b n (384 + 384 + 128 + 128) (ext6b h) (ext6b w)"
    using Inception2_shape [OF x15(2) e6]
    by blast
  note i6b = i6b(1) i6b(2) [simplified]
  obtain x16 where x16: "MaxPool2d 2 2 0 True i6b = Inr x16"
      "has_shape x16 n 1024 (ext7b h) (ext7b w)"
    using MaxPool2d_2_2_shape [OF i6b(2) e6]
    unfolding ext7b_def
    by blast
  obtain x17 where x17: "Inception2 (inception7a net) 1024 256 160 320 32 128 128 x16 = Inr x17"
      "has_shape x17 n (256 + 320 + 128 + 128) (ext7b h) (ext7b w)"
    using Inception2_shape [OF x16(2) e7]
    by blast
  note x17 = x17(1) x17(2) [simplified]
  obtain i7b where i7b: "Inception2 (inception7b net) 832 384 192 384 48 128 128 x17 = Inr i7b"
      "has_shape i7b n (384 + 384 + 128 + 128) (ext7b h) (ext7b w)"
    using Inception2_shape [OF x17(2) e7]
    by blast
  note i7b = i7b(1) i7b(2) [simplified]
  have "encoder net x = Inr (i3b, i4e, i5b, i6b, i7b)"
    unfolding encoder_def
    by (simp only: x0(1) x1(1) x2(1) x3(1) x4(1) x5(1) x6(1) i3b(1) x7(1) x8(1) x9(1) x10(1) x11(1) i4e(1) x12(1) x13(1) i5b(1) x14(1) x15(1) i6b(1) x16(1) x17(1) i7b(1) bindE_Inr)
  then show ?thesis
    using i3b(2) i4e(2) i5b(2) i6b(2) i7b(2) by blast
qed

section \<open>The dense paths, step by step\<close>

lemma Conv2d_run:
  "has_shape x n (c_in m) h w \<Longrightarrow>
   \<exists>y. Conv2d m x = Inr y \<and> has_shape y n (c_out m) h w \<and> (zero_conv m \<longrightarrow> all_zero y)"
  by (simp add: Conv2d_def has_shape_def zero_conv_def all_zero_def)

lemma fuse_run:
  assumes u: "has_shape u n c hu wu" and s: "has_shape s n c hs ws"
    and fit: "hs + 1 \<le> hu" "ws + 1 \<le> wu"
  shows "\<exists>y. iadd (crop 1 (th s) (tw s) u) s = Inr y \<and> has_shape y n c hs ws \<and>
           (\<forall>b<n. \<forall>k<c. \<forall>i<hs. \<forall>j<ws. el y b k i j = el u b k (i + 1) (j + 1) + el s b k i j) \<and>
           (all_zero u \<longrightarrow> all_zero s \<longrightarrow> all_zero y)"
  using assms
  by (auto simp add: iadd_def crop_def has_shape_def bcast_def all_zero_def)

lemma crop_final:
  "has_shape u n c hu wu \<Longrightarrow>
   has_shape (crop 4 h w u) n c (min (4 + h) hu - min 4 hu) (min (4 + w) wu - min 4 wu) \<and>
   (all_zero u \<longrightarrow> all_zero (crop 4 h w u))"
  by (auto simp add: crop_def has_shape_def all_zero_def)


lemma ConvTranspose2d_up2:
  "has_shape x n c h w \<Longrightarrow> t_in m = c \<Longrightarrow> t_out m = c \<Longrightarrow> t_kernel m = 4 \<Longrightarrow>
   t_stride m = 2 \<Longrightarrow>
   \<exists>y. ConvTranspose2d m x = Inr y \<and> has_shape y n c (2 * h + 2) (2 * w + 2) \<and>
       (all_zero x \<longrightarrow> all_zero y)"
  by (auto simp add: ConvTranspose2d_def has_shape_def all_zero_def intro!: sum.neutral)

lemma ConvTranspose2d_up8:
  "has_shape x n c h w \<Longrightarrow> t_in m = c \<Longrightarrow> t_out m = c \<Longrightarrow> t_kernel m = 16 \<Longrightarrow>
   t_stride m = 8 \<Longrightarrow>
   \<exists>y. ConvTranspose2d m x = Inr y \<and> has_shape y n c (8 * h + 8) (8 * w + 8) \<and>
       (all_zero x \<longrightarrow> all_zero y)"
  by (auto simp add: ConvTranspose2d_def has_shape_def all_zero_def intro!: sum.neutral)

lemma Conv2d_score:
  "has_shape x n ci h w \<Longrightarrow> c_in m = ci \<Longrightarrow> c_out m = c \<Longrightarrow>
   \<exists>y. Conv2d m x = Inr y \<and> has_shape y n c h w \<and> (zero_conv m \<longrightarrow> all_zero y)"
  using Conv2d_run [of x n m h w] by simp

lemma dense_path_steps:
  assumes a: "dense_arch c s3 s4 s5 s6 u u2 u4 u8"
    and i3b: "has_shape i3b n 480 h3 w3" and i4e: "has_shape i4e n 832 h4 w4"
    and i5b: "has_shape i5b n 1024 h5 w5" and i6b: "has_shape i6b n 1024 h6 w6"
    and fit5: "h5 \<le> 2 * h6 + 1" "w5 \<le> 2 * w6 + 1"
    and fit4: "h4 \<le> 2 * h5 + 1" "w4 \<le> 2 * w5 + 1"
    and fit3: "h3 \<le> 2 * h4 + 1" "w3 \<le> 2 * w4 + 1"
  shows "\<exists>S6 S5 U1 F5 S4 U2 F4 S3 U3 F3 U8.
      Conv2d s6 i6b = Inr S6 \<and> Conv2d s5 i5b = Inr S5 \<and> has_shape S5 n c h5 w5 \<and>
      ConvTranspose2d u S6 = Inr U1 \<and>
      iadd (crop 1 (th S5) (tw S5) U1) S5 = Inr F5 \<and> has_shape F5 n c h5 w5 \<and>
      (\<forall>b<n. \<forall>k<c. \<forall>i<h5. \<forall>j<w5. el F5 b k i j = el U1 b k (i + 1) (j + 1) + el S5 b k i j) \<and>
      Conv2d s4 i4e = Inr S4 \<and> has_shape S4 n c h4 w4 \<and>
      ConvTranspose2d u2 F5 = Inr U2 \<and>
      iadd (crop 1 (th S4) (tw S4) U2) S4 = Inr F4 \<and> has_shape F4 n c h4 w4 \<and>
      (\<forall>b<n. \<forall>k<c. \<forall>i<h4. \<forall>j<w4. el F4 b k i j = el U2 b k (i + 1) (j + 1) + el S4 b k i j) \<and>
      Conv2d s3 i3b = Inr S3 \<and> has_shape S3 n c h3 w3 \<and>
      ConvTranspose2d u4 F4 = Inr U3 \<and>
      iadd (crop 1 (th S3) (tw S3) U3) S3 = Inr F3 \<and> has_shape F3 n c h3 w3 \<and>
      (\<forall>b<n. \<forall>k<c. \<forall>i<h3. \<forall>j<w3. el F3 b k i j = el U3 b k (i + 1) (j + 1) + el S3 b k i j) \<and>
      ConvTranspose2d u8 F3 = Inr U8 \<and> has_shape U8 n c (8 * h3 + 8) (8 * w3 + 8) \<and>
      dense_path s3 s4 s5 s6 u u2 u4 u8 [i3b, i4e, i5b, i6b] h w = Inr (crop 4 h w U8) \<and>
      (zero_conv s3 \<and> zero_conv s4 \<and> zero_conv s5 \<and> zero_conv s6 \<longrightarrow>
         all_zero (crop 4 h w U8))"
proof -
  have cs: "c_in s3 = 480" "c_in s4 = 832" "c_in s5 = 1024" "c_in s6 = 1024"
      "c_out s3 = c" "c_out s4 = c" "c_out s5 = c" "c_out s6 = c"
    using a by (simp_all add: dense_arch_def)
  have ts: "t_in u = c" "t_in u2 = c" "t_in u4 = c" "t_in u8 = c"
      "t_out u = c" "t_out u2 = c" "t_out u4 = c" "t_out u8 = c"
      "t_kernel u = 4" "t_kernel u2 = 4" "t_kernel u4 = 4" "t_kernel u8 = 16"
      "t_stride u = 2" "t_stride u2 = 2" "t_stride u4 = 2" "t_stride u8 = 8"
    using a by (simp_all add: dense_arch_def)
  obtain S6 where S6: "Conv2d s6 i6b = Inr S6" "has_shape S6 n c h6 w6"
      "zero_conv s6 \<longrightarrow> all_zero S6"
    using Conv2d_score [OF i6b] cs by blast
  obtain S5 where S5: "Conv2d s5 i5b = Inr S5" "has_shape S5 n c h5 w5"
      "zero_conv s5 \<longrightarrow> all_zero S5"
    using Conv2d_score [OF i5b] cs by blast
  obtain U1 where U1: "ConvTranspose2d u S6 = Inr U1" "has_shape U1 n c (2 * h6 + 2) (2 * w6 + 2)"
      "all_zero S6 \<longrightarrow> all_zero U1"
    using ConvTranspose2d_up2 [OF S6(2)] ts by blast
  obtain F5 where F5: "iadd (crop 1 (th S5) (tw S5) U1) S5 = Inr F5" "has_shape F5 n c h5 w5"
      "\<forall>b<n. \<forall>k<c. \<forall>i<h5. \<forall>j<w5. el F5 b k i j = el U1 b k (i + 1) (j + 1) + el S5 b k i j"
      "all_zero U1 \<longrightarrow> all_zero S5 \<longrightarrow> all_zero F5"
    using fuse_run [OF U1(2) S5(2)] fit5 by fastforce
  obtain S4 where S4: "Conv2d s4 i4e = Inr S4" "has_shape S4 n c h4 w4"
      "zero_conv s4 \<longrightarrow> all_zero S4"
    using Conv2d_score [OF i4e] cs by blast
  obtain U2 where U2: "ConvTranspose2d u2 F5 = Inr U2" "has_shape U2 n c (2 * h5 + 2) (2 * w5 + 2)"
      "all_zero F5 \<longrightarrow> all_zero U2"
    using ConvTranspose2d_up2 [OF F5(2)] ts by blast
  obtain F4 where F4: "iadd (crop 1 (th S4) (tw S4) U2) S4 = Inr F4" "has_shape F4 n c h4 w4"
      "\<forall>b<n. \<forall>k<c. \<forall>i<h4. \<forall>j<w4. el F4 b k i j = el U2 b k (i + 1) (j + 1) + el S4 b k i j"
      "all_zero U2 \<longrightarrow> all_zero S4 \<longrightarrow> all_zero F4"
    using fuse_run [OF U2(2) S4(2)] fit4 by fastforce
  obtain S3 where S3: "Conv2d s3 i3b = Inr S3" "has_shape S3 n c h3 w3"
      "zero_conv s3 \<longrightarrow> all_zero S3"
    using Conv2d_score [OF i3b] cs by blast
  obtain U3 where U3: "ConvTranspose2d u4 F4 = Inr U3" "has_shape U3 n c (2 * h4 + 2) (2 * w4 + 2)"
      "all_zero F4 \<longrightarrow> all_zero U3"
    using ConvTranspose2d_up2 [OF F4(2)] ts by blast
  obtain F3 where F3: "iadd (crop 1 (th S3) (tw S3) U3) S3 = Inr F3" "has_shape F3 n c h3 w3"
      "\<forall>b<n. \<forall>k<c. \<forall>i<h3. \<forall>j<w3. el F3 b k i j = el U3 b k (i + 1) (j + 1) + el S3 b k i j"
      "all_zero U3 \<longrightarrow> all_zero S3 \<longrightarrow> all_zero F3"
    using fuse_run [OF U3(2) S3(2)] fit3 by fastforce
  obtain U8 where U8: "ConvTranspose2d u8 F3 = Inr U8" "has_shape U8 n c (8 * h3 + 8) (8 * w3 + 8)"
      "all_zero F3 \<longrightarrow> all_zero U8"
    using ConvTranspose2d_up8 [OF F3(2)] ts by blast
  have run: "dense_path s3 s4 s5 s6 u u2 u4 u8 [i3b, i4e, i5b, i6b] h w = Inr (crop 4 h w U8)"
    unfolding dense_path_def
    by (simp only: list.case S6(1) S5(1) U1(1) F5(1) S4(1) U2(1) F4(1) S3(1) U3(1) F3(1) U8(1)
        bindE_Inr)
  have zero: "zero_conv s3 \<and> zero_conv s4 \<and> zero_conv s5 \<and> zero_conv s6 \<longrightarrow>
      all_zero (crop 4 h w U8)"
    using S6(3) S5(3) U1(3) F5(4) S4(3) U2(3) F4(4) S3(3) U3(3) F3(4) U8(3)
      crop_final [OF U8(2), of h w] by blast
  show ?thesis
    using S6(1) S5(1,2) U1(1) F5(1,2,3) S4(1,2) U2(1) F4(1,2,3) S3(1,2) U3(1) F3(1,2,3)
      U8(1,2) run zero
    by blast
qed

section \<open>The forward pass\<close>

lemma fits:
  "ext5b h \<le> 2 * ext6b h + 1" "ext4e h \<le> 2 * ext5b h + 1" "ext3b h \<le> 2 * ext4e h + 1"
  by (simp_all add: ext6b_def ext5b_def ext4e_def)

lemma dense_path_run:
  assumes a: "dense_arch c s3 s4 s5 s6 u u2 u4 u8"
    and i3b: "has_shape i3b n 480 h3 w3" and i4e: "has_shape i4e n 832 h4 w4"
    and i5b: "has_shape i5b n 1024 h5 w5" and i6b: "has_shape i6b n 1024 h6 w6"
    and fit5: "h5 \<le> 2 * h6 + 1" "w5 \<le> 2 * w6 + 1"
    and fit4: "h4 \<le> 2 * h5 + 1" "w4 \<le> 2 * w5 + 1"
    and fit3: "h3 \<le> 2 * h4 + 1" "w3 \<le> 2 * w4 + 1"
  shows "\<exists>U8. dense_path s3 s4 s5 s6 u u2 u4 u8 [i3b, i4e, i5b, i6b] h w = Inr (crop 4 h w U8) \<and>
      has_shape U8 n c (8 * h3 + 8) (8 * w3 + 8) \<and>
      (zero_conv s3 \<and> zero_conv s4 \<and> zero_conv s5 \<and> zero_conv s6 \<longrightarrow>
         all_zero (crop 4 h w U8))"
proof -
  from dense_path_steps [OF assms, of h w]
  obtain S6 S5 U1 F5 S4 U2 F4 S3 U3 F3 U8 where
    "has_shape U8 n c (8 * h3 + 8) (8 * w3 + 8)"
    "dense_path s3 s4 s5 s6 u u2 u4 u8 [i3b, i4e, i5b, i6b] h w = Inr (crop 4 h w U8)"
    "zero_conv s3 \<and> zero_conv s4 \<and> zero_conv s5 \<and> zero_conv s6 \<longrightarrow> all_zero (crop 4 h w U8)"
    by (elim exE conjE)
  then show ?thesis by (intro exI conjI)
qed

lemma forward_run:
  assumes a: "arch nc net" and x: "has_shape x n 3 h w" and h: "15 \<le> h" and w: "15 \<le> w"
    and mb: "box_head_ok net"
  shows "\<exists>t l c sem offs U8s U8o. encoder net x = Inr t \<and> multibox net (feature_maps t) = Inr (l, c) \<and>
      forward net x = Inr (l, c, sem, offs) \<and>
      sem = crop 4 h w U8s \<and> has_shape U8s n nc (8 * ext3b h + 8) (8 * ext3b w + 8) \<and>
      offs = crop 4 h w U8o \<and> has_shape U8o n 2 (8 * ext3b h + 8) (8 * ext3b w + 8) \<and>
      (zero_conv (sem_score3b net) \<and> zero_conv (sem_score4e net) \<and>
       zero_conv (sem_score5b net) \<and> zero_conv (sem_score6b net) \<longrightarrow> all_zero sem) \<and>
      (zero_conv (offs_score3b net) \<and> zero_conv (offs_score4e net) \<and>
       zero_conv (offs_score5b net) \<and> zero_conv (offs_score6b net) \<longrightarrow> all_zero offs)"
proof -
  obtain i3b i4e i5b i6b i7b where e: "encoder net x = Inr (i3b, i4e, i5b, i6b, i7b)"
    and s: "has_shape i3b n 480 (ext3b h) (ext3b w)" "has_shape i4e n 832 (ext4e h) (ext4e w)"
      "has_shape i5b n 1024 (ext5b h) (ext5b w)" "has_shape i6b n 1024 (ext6b h) (ext6b w)"
    using encoder_shape [OF x h w, of net] by blast
  obtain l c where lc: "multibox net (feature_maps (i3b, i4e, i5b, i6b, i7b)) = Inr (l, c)"
    using mb by (fastforce simp add: box_head_ok_def feature_maps_def)
  have as: "dense_arch nc (sem_score3b net) (sem_score4e net) (sem_score5b net)
        (sem_score6b net) (sem_upscore net) (sem_upscore2 net) (sem_upscore4 net)
        (sem_upscore8 net)"
    and ao: "dense_arch 2 (offs_score3b net) (offs_score4e net) (offs_score5b net)
        (offs_score6b net) (offs_upscore net) (offs_upscore2 net) (offs_upscore4 net)
        (offs_upscore8 net)"
    using a by (simp_all add: arch_def)
  obtain U8s where S: "dense_path (sem_score3b net) (sem_score4e net) (sem_score5b net)
        (sem_score6b net) (sem_upscore net) (sem_upscore2 net) (sem_upscore4 net)
        (sem_upscore8 net) [i3b, i4e, i5b, i6b] h w = Inr (crop 4 h w U8s)"
      "has_shape U8s n nc (8 * ext3b h + 8) (8 * ext3b w + 8)"
      "zero_conv (sem_score3b net) \<and> zero_conv (sem_score4e net) \<and>
       zero_conv (sem_score5b net) \<and> zero_conv (sem_score6b net) \<longrightarrow> all_zero (crop 4 h w U8s)"
    using dense_path_run [OF as s fits(1) fits(1) fits(2) fits(2) fits(3) fits(3), of h w]
    by blast
  obtain U8o where Of: "dense_path (offs_score3b net) (offs_score4e net) (offs_score5b net)
        (offs_score6b net) (offs_upscore net) (offs_upscore2 net) (offs_upscore4 net)
        (offs_upscore8 net) [i3b, i4e, i5b, i6b] h w = Inr (crop 4 h w U8o)"
      "has_shape U8o n 2 (8 * ext3b h + 8) (8 * ext3b w + 8)"
      "zero_conv (offs_score3b net) \<and> zero_conv (offs_score4e net) \<and>
       zero_conv (offs_score5b net) \<and> zero_conv (offs_score6b net) \<longrightarrow> all_zero (crop 4 h w U8o)"
    using dense_path_run [OF ao s fits(1) fits(1) fits(2) fits(2) fits(3) fits(3), of h w]
    by blast
  have hw: "th x = h" "tw x = w" using x by (simp_all add: has_shape_def)
  have "forward net x = Inr (l, c, crop 4 h w U8s, crop 4 h w U8o)"
    unfolding forward_def
    by (simp only: e lc dense_inputs_def hw S(1) Of(1) bindE_Inr prod.case)
  then show ?thesis
    using e lc S(2,3) Of(2,3) by blast
qed

section \<open>Construction\<close>

lemma bias_free_1x1_append [simp]:
  "bias_free_1x1 (xs @ ys) = bias_free_1x1 xs @ bias_free_1x1 ys"
  by (induction xs rule: bias_free_1x1.induct) simp_all

lemma initialize_weights_cases:
  "(if num_classes \<in> set (bias_free_1x1 ms) \<or> 2 \<in> set (bias_free_1x1 ms)
    then initialize_weights num_classes ms = Inl AttributeError
    else (\<exists>r. initialize_weights num_classes ms = Inr r))"
proof (induction ms)
  case Nil
  show ?case by simp
next
  case (Cons m ms)
  show ?case
  proof (cases m)
    case (Conv2d_mod k out b)
    then show ?thesis using Cons by (auto simp add: bindE_def split: sum.splits if_splits)
  next
    case (ConvTranspose2d_mod o2 k2)
    then show ?thesis using Cons by (auto simp add: bindE_def split: sum.splits if_splits)
  next
    case BatchNorm2d_mod
    then show ?thesis using Cons by (auto simp add: bindE_def split: sum.splits if_splits)
  next
    case Other_mod
    then show ?thesis using Cons by (auto simp add: bindE_def split: sum.splits if_splits)
  qed
qed

lemma backbone_widths:
  "set (bias_free_1x1 (Box2Pix_modules num_classes [])) =
     {16, 24, 32, 48, 64, 96, 112, 128, 144, 160, 192, 256, 384}"
  by (simp add: Box2Pix_modules_def Inception_modules_def Inception2_modules_def
      BasicConv2d_modules_def insert_commute)

lemma Box2Pix_returns:
  assumes "num_classes \<notin> {16, 24, 32, 48, 64, 96, 112, 128, 144, 160, 192, 256, 384}"
  shows "\<exists>net. Box2Pix rnd [] num_classes ti = Inr net"
proof -
  have "\<exists>r. initialize_weights num_classes (Box2Pix_modules num_classes []) = Inr r"
    using initialize_weights_cases [of num_classes "Box2Pix_modules num_classes []"] assms
    unfolding backbone_widths by (simp split: if_splits)
  then show ?thesis by (auto simp add: Box2Pix_def)
qed

lemma Box2Pix_built:
  assumes "Box2Pix rnd mb num_classes ti = Inr net"
  shows "arch num_classes net"
    and "zero_conv (sem_score3b net) \<and> zero_conv (sem_score4e net) \<and>
         zero_conv (sem_score5b net) \<and> zero_conv (sem_score6b net)"
    and "zero_conv (offs_score3b net) \<and> zero_conv (offs_score4e net) \<and>
         zero_conv (offs_score5b net) \<and> zero_conv (offs_score6b net)"
    and "multibox net = multibox rnd"
    and "transform_input net = ti"
proof -
  obtain r where "initialize_weights num_classes (Box2Pix_modules num_classes mb) = Inr r"
    using assms by (cases "initialize_weights num_classes (Box2Pix_modules num_classes mb)")
      (simp_all add: Box2Pix_def)
  then have n: "net = rnd\<lparr>transform_input := ti,
       sem_score3b := init_conv2d num_classes 1 (new_Conv2d (sem_score3b rnd) 480 num_classes),
       sem_score4e := init_conv2d num_classes 1 (new_Conv2d (sem_score4e rnd) 832 num_classes),
       sem_score5b := init_conv2d num_classes 1 (new_Conv2d (sem_score5b rnd) 1024 num_classes),
       sem_score6b := init_conv2d num_classes 1 (new_Conv2d (sem_score6b rnd) 1024 num_classes),
       sem_upscore := init_convT2d (new_ConvTranspose2d (sem_upscore rnd) num_classes num_classes 4 2),
       sem_upscore2 := init_convT2d (new_ConvTranspose2d (sem_upscore2 rnd) num_classes num_classes 4 2),
       sem_upscore4 := init_convT2d (new_ConvTranspose2d (sem_upscore4 rnd) num_classes num_classes 4 2),
       sem_upscore8 := init_convT2d (new_ConvTranspose2d (sem_upscore8 rnd) num_classes num_classes 16 8),
       offs_score3b := init_conv2d num_classes 1 (new_Conv2d (offs_score3b rnd) 480 2),
       offs_score4e := init_conv2d num_classes 1 (new_Conv2d (offs_score4e rnd) 832 2),
       offs_score5b := init_conv2d num_classes 1 (new_Conv2d (offs_score5b rnd) 1024 2),
       offs_score6b := init_conv2d num_classes 1 (new_Conv2d (offs_score6b rnd) 1024 2),
       offs_upscore := init_convT2d (new_ConvTranspose2d (offs_upscore rnd) 2 2 4 2),
       offs_upscore2 := init_convT2d (new_ConvTranspose2d (offs_upscore2 rnd) 2 2 4 2),
       offs_upscore4 := init_convT2d (new_ConvTranspose2d (offs_upscore4 rnd) 2 2 4 2),
       offs_upscore8 := init_convT2d (new_ConvTranspose2d (offs_upscore8 rnd) 2 2 16 8)\<rparr>"
    using assms by (simp add: Box2Pix_def)
  have z: "\<And>m ci co. co = num_classes \<or> co = 2 \<Longrightarrow>
      zero_conv (init_conv2d num_classes (Suc 0) (new_Conv2d m ci co))"
    by (auto simp add: zero_conv_def init_conv2d_def new_Conv2d_def)
  have c: "\<And>k m ci co. c_in (init_conv2d num_classes k (new_Conv2d m ci co)) = ci \<and>
      c_out (init_conv2d num_classes k (new_Conv2d m ci co)) = co"
    by (simp add: init_conv2d_def new_Conv2d_def)
  have t: "\<And>m ci co k s. t_in (init_convT2d (new_ConvTranspose2d m ci co k s)) = ci \<and>
      t_out (init_convT2d (new_ConvTranspose2d m ci co k s)) = co \<and>
      t_kernel (init_convT2d (new_ConvTranspose2d m ci co k s)) = k \<and>
      t_stride (init_convT2d (new_ConvTranspose2d m ci co k s)) = s"
    by (simp add: init_convT2d_def new_ConvTranspose2d_def)
  show "arch num_classes net"
    unfolding n arch_def dense_arch_def by (simp add: c t)
  show "zero_conv (sem_score3b net) \<and> zero_conv (sem_score4e net) \<and>
         zero_conv (sem_score5b net) \<and> zero_conv (sem_score6b net)"
    unfolding n by (simp add: z)
  show "zero_conv (offs_score3b net) \<and> zero_conv (offs_score4e net) \<and>
         zero_conv (offs_score5b net) \<and> zero_conv (offs_score6b net)"
    unfolding n by (simp add: z)
  show "multibox net = multibox rnd" unfolding n by simp
  show "transform_input net = ti" unfolding n by simp
qed

section \<open>Claims on construction\<close>

text \<open>
  C6. Construction does not succeed for every positive \<open>num_classes\<close>: the test by
  which \<open>_initialize_weights\<close> recognises a score projection (kernel extent 1 and
  \<open>num_classes\<close> or 2 output channels) also matches a \<open>1 \<times> 1\<close> convolution of
  the encoder whose width happens to be \<open>num_classes\<close>, and that convolution has no
  bias to fill. With a box head that adds no module, construction raises exactly for
  the thirteen widths below, among them 64.
\<close>

theorem Box2Pix_raises_on_backbone_width:
  "(Box2Pix rnd [] num_classes ti = Inl AttributeError) =
     (num_classes \<in> {16, 24, 32, 48, 64, 96, 112, 128, 144, 160, 192, 256, 384})"
proof (cases "num_classes \<in> {16, 24, 32, 48, 64, 96, 112, 128, 144, 160, 192, 256, 384}")
  case True
  then have "initialize_weights num_classes (Box2Pix_modules num_classes []) = Inl AttributeError"
    using initialize_weights_cases [of num_classes "Box2Pix_modules num_classes []"]
    unfolding backbone_widths by (simp split: if_splits)
  then show ?thesis using True by (simp add: Box2Pix_def)
next
  case False
  then obtain net where "Box2Pix rnd [] num_classes ti = Inr net"
    using Box2Pix_returns [of num_classes rnd ti] by blast
  then show ?thesis using False by simp
qed

lemma ext3b_div8: "ext3b h = (h + 1) div 8"
  unfolding ext3b_def by (simp add: div_mult2_eq)

lemma out_ext_crop: "min (4 + h) (8 * ext3b h + 8) - min 4 (8 * ext3b h + 8) = out_ext h"
proof -
  define q where "q = h div 8"
  define r where "r = h mod 8"
  have hq: "h = 8 * q + r" and r: "r < 8" by (simp_all add: q_def r_def)
  have m: "h mod 8 = r" by (simp add: r_def)
  have e: "ext3b h = (if r = 7 then q + 1 else q)"
  proof (cases "r = 7")
    case True
    then have "h + 1 = 8 * (q + 1)" using hq by simp
    then have "(h + 1) div 8 = q + 1" by simp
    then show ?thesis using True by (simp add: ext3b_div8)
  next
    case False
    then have "r + 1 < 8" using r by simp
    moreover have "h + 1 = (r + 1) + q * 8" using hq by simp
    ultimately have "(h + 1) div 8 = q" by simp
    then show ?thesis using False by (simp add: ext3b_div8)
  qed
  show ?thesis
    unfolding out_ext_def e m using hq r by (simp add: min_def)
qed

lemma forward_shapes:
  assumes a: "arch nc net" and mb: "box_head_ok net" and x: "has_shape x n 3 h w"
    and h: "15 \<le> h" and w: "15 \<le> w"
  shows "\<exists>l c sem offs. forward net x = Inr (l, c, sem, offs) \<and>
           has_shape sem n nc (out_ext h) (out_ext w) \<and>
           has_shape offs n 2 (out_ext h) (out_ext w)"
proof -
  from forward_run [OF a x h w mb]
  obtain t l c sem offs U8s U8o where
    f: "forward net x = Inr (l, c, sem, offs)"
    and s: "sem = crop 4 h w U8s" "has_shape U8s n nc (8 * ext3b h + 8) (8 * ext3b w + 8)"
    and o: "offs = crop 4 h w U8o" "has_shape U8o n 2 (8 * ext3b h + 8) (8 * ext3b w + 8)"
    by (elim exE conjE)
  have "has_shape sem n nc (out_ext h) (out_ext w)"
    using crop_final [OF s(2), of h w] unfolding s(1) out_ext_crop by simp
  moreover have "has_shape offs n 2 (out_ext h) (out_ext w)"
    using crop_final [OF o(2), of h w] unfolding o(1) out_ext_crop by simp
  ultimately show ?thesis using f by blast
qed

lemma rnd0_box_head: "Box2Pix rnd0 mb nc ti = Inr net \<Longrightarrow> box_head_ok net"
  using Box2Pix_built(4) [of rnd0 mb nc ti net] by (simp add: box_head_ok_def rnd0_def)

lemma const_image_shape: "has_shape (const_image v n c h w) n c h w"
  by (simp add: has_shape_def const_image_def)

lemma out_shapes_Inr:
  "r = Inr (l, c, sem, offs) \<Longrightarrow> has_shape sem n1 c1 h1 w1 \<Longrightarrow> has_shape offs n2 c2 h2 w2 \<Longrightarrow>
   out_shapes r = Inr ((n1, c1, h1, w1), (n2, c2, h2, w2))"
  by (simp add: out_shapes_def shape_of_def has_shape_def)

section \<open>Claims on the shapes of the dense outputs\<close>




lemma const_image_zero: "all_zero (const_image 0 n c h w)"
  by (simp add: all_zero_def const_image_def)

section \<open>Claims on the freshly constructed network\<close>





section \<open>Claims on the crops\<close>




section \<open>Claims on the feature tensors\<close>




lemma crop_el: "el (crop off h w t) b k i j = el t b k (i + off) (j + off)"
  by (simp add: crop_def)

section \<open>Claims on the fusion steps\<close>




section \<open>Claims on the factory function\<close>

text \<open>
  C10. If loading from the empty URL fails, as it does in the library, then
  \<open>box2pix\<close> with \<open>pretrained=True\<close> fails for every number of classes and every
  keyword list: the URL it hands to \<open>load_url\<close> is always the empty string and no
  error is caught. With \<open>pretrained=False\<close> it is the constructor, which returns a
  network for the default 11 classes.
\<close>

theorem box2pix_pretrained_fails:
  assumes "load_url [] = Inl e"
  shows "(\<exists>e1. box2pix load_url load_state_dict rnd mb num_classes True kwargs = Inl e1) \<and>
         box2pix load_url load_state_dict rnd mb num_classes False kwargs =
           Box2Pix_kwargs rnd mb num_classes kwargs \<and>
         (\<exists>net. box2pix load_url load_state_dict rnd [] 11 False [] = Inr net)"
proof -
  have 1: "\<exists>e1. box2pix load_url load_state_dict rnd mb num_classes True kwargs = Inl e1"
    unfolding box2pix_def Let_def using assms
    by (cases "Box2Pix_kwargs rnd mb num_classes
          (if ''transform_input'' \<notin> set (map fst kwargs)
           then kwargs @ [(''transform_input'', True)] else kwargs)") simp_all
  have 2: "box2pix load_url load_state_dict rnd mb num_classes False kwargs =
           Box2Pix_kwargs rnd mb num_classes kwargs"
    by (simp add: box2pix_def)
  have 3: "\<exists>net. box2pix load_url load_state_dict rnd [] 11 False [] = Inr net"
    using Box2Pix_returns [of 11 rnd False] by (simp add: box2pix_def Box2Pix_kwargs_def)
  show ?thesis using 1 2 3 by (intro conjI)
qed

text \<open>
  The theorem with a loader that fails on the empty URL only and a
  \<open>load_state_dict\<close> that always succeeds.
\<close>

theorem box2pix_pretrained_fails_witness:
  "failing_loader [] = Inl LoadError \<and>
   (\<exists>e1. box2pix failing_loader accept_state_dict rnd0 [] 11 True [] = Inl e1) \<and>
   (\<exists>net. box2pix failing_loader accept_state_dict rnd0 [] 11 False [] = Inr net)"
proof -
  have h: "failing_loader [] = Inl LoadError" by (simp add: failing_loader_def)
  from box2pix_pretrained_fails [where load_url = failing_loader and e = LoadError
      and load_state_dict = accept_state_dict and rnd = rnd0 and mb = "[]"
      and num_classes = 11 and kwargs = "[]", OF h]
  show ?thesis using h by blast
qed

end
